theory Spec2Isabelle
  imports Complex_Main "HOL-Library.Multiset"
begin

section \<open>Variance explained by a PCA model: \<open>percvar\<close> and \<open>perck\<close>\<close>

text \<open>
  The notebook \<^verbatim>\<open>Activity-dr_pca.ipynb\<close> defines two functions, \<^verbatim>\<open>percvar\<close> and
  \<^verbatim>\<open>perck\<close>, and feeds them the eigenvalues of a covariance matrix and the rescaled
  squared singular values of the centered data matrix.

  An input vector is a list of reals. numpy never raises on a division by zero; it returns
  \<open>nan\<close> or \<open>\<plusminus>inf\<close>. The values that \<^verbatim>\<open>percvar\<close> returns are therefore modelled by
  the type \<open>npfloat\<close>, the reals extended by these three values.

  \<^verbatim>\<open>percvar\<close> is given twice. \<open>percvar\<close> evaluates the function in exact real arithmetic:
  sums and quotients are those of the reals. \<open>percvar_f64\<close> evaluates it in IEEE binary64,
  the arithmetic of numpy's \<^verbatim>\<open>float64\<close> arrays: every sum and quotient is rounded to the
  nearest double and overflows to infinity. The two agree wherever no rounding and no
  overflow occurs; a statement about all inputs says which of the two it is about.
\<close>

subsection \<open>numpy floating-point values\<close>

datatype npfloat = Fin real | PInf | NInf | NaN

text \<open>\<^verbatim>\<open>x / d\<close> for finite \<open>x\<close> and \<open>d\<close>: \<open>0/0\<close> is \<open>nan\<close>, \<open>x/0\<close> is an infinity.\<close>

definition np_div :: "real \<Rightarrow> real \<Rightarrow> npfloat" where
  "np_div x d =
     (if d \<noteq> 0 then Fin (x / d)
      else if x = 0 then NaN
      else if 0 < x then PInf
      else NInf)"

text \<open>\<^verbatim>\<open>a + b\<close>: \<open>nan\<close> is absorbing, and \<open>inf + (-inf)\<close> is \<open>nan\<close>.\<close>

fun np_add :: "npfloat \<Rightarrow> npfloat \<Rightarrow> npfloat" where
  "np_add (Fin a) (Fin b) = Fin (a + b)"
| "np_add NaN _ = NaN"
| "np_add _ NaN = NaN"
| "np_add PInf NInf = NaN"
| "np_add NInf PInf = NaN"
| "np_add PInf _ = PInf"
| "np_add _ PInf = PInf"
| "np_add NInf _ = NInf"
| "np_add _ NInf = NInf"

text \<open>\<^verbatim>\<open>a >= p\<close> for a finite threshold \<open>p\<close>: every comparison with \<open>nan\<close> is false.\<close>

fun np_ge :: "npfloat \<Rightarrow> real \<Rightarrow> bool" where
  "np_ge (Fin a) p = (p \<le> a)"
| "np_ge PInf p = True"
| "np_ge NInf p = False"
| "np_ge NaN p = False"

subsection \<open>\<open>percvar\<close>\<close>

text \<open>
  \<^verbatim>\<open>
  def percvar(v):
      # sort values
      s = np.sort(np.abs(v))
      # reverse sorting order
      s = s[::-1]
      # normalize
      s = s/np.sum(s)
      return s, np.cumsum(s)
  \<close>
  \<^verbatim>\<open>np.cumsum\<close> is the inclusive running sum, \<^verbatim>\<open>np.sum\<close> the sum of all entries
  (\<open>0\<close> for the empty vector). The argument is a \<^verbatim>\<open>float64\<close> array, as everywhere in the
  notebook; arrays of integers are not modelled.
\<close>

fun cumsum_from :: "npfloat \<Rightarrow> npfloat list \<Rightarrow> npfloat list" where
  "cumsum_from acc [] = []"
| "cumsum_from acc (x # xs) = np_add acc x # cumsum_from (np_add acc x) xs"

definition cumsum :: "npfloat list \<Rightarrow> npfloat list" where
  "cumsum xs = (case xs of [] \<Rightarrow> [] | x # ys \<Rightarrow> x # cumsum_from x ys)"

definition percvar :: "real list \<Rightarrow> npfloat list \<times> npfloat list" where
  "percvar v =
     (let s = sort (map abs v);
          s = rev s;
          s = map (\<lambda>x. np_div x (sum_list s)) s
      in (s, cumsum s))"

subsection \<open>\<open>perck\<close>\<close>

text \<open>
  \<^verbatim>\<open>
  def perck(s, p):
      count = 0
      for i in range(len(s)):
          if(s[i] >= p):
              count = i
              break
      return count
  \<close>
  The loop is the function \<open>perck_loop\<close>, started at index \<open>0\<close> with \<open>count = 0\<close>
  (the argument \<open>cnt\<close>); it returns the value of \<open>count\<close> when the loop is left.
\<close>

function perck_loop :: "npfloat list \<Rightarrow> real \<Rightarrow> nat \<Rightarrow> nat \<Rightarrow> nat" where
  "perck_loop s p i cnt =
     (if i < length s
      then (if np_ge (s ! i) p then i else perck_loop s p (Suc i) cnt)
      else cnt)"
  by pat_completeness auto
termination
  by (relation "measure (\<lambda>(s, p, i, cnt). length s - i)") auto

definition perck :: "npfloat list \<Rightarrow> real \<Rightarrow> nat" where
  "perck s p = perck_loop s p 0 0"

subsection \<open>The two spectra\<close>

text \<open>
  \<^verbatim>\<open>X_cov = X_sm.T.dot(X_sm) / (X_sm.shape[0] - 1)\<close> and
  \<^verbatim>\<open>s**2/(X_sm.shape[0]-1)\<close>. A matrix is the list of its rows, all of one length;
  \<open>dot\<close> is the matrix product, applied here to \<open>X\<^sup>T\<close> and \<open>X\<close>, whose shapes match.
  Both expressions divide by \<open>n - 1\<close> for the number \<open>n\<close> of rows; every statement below
  about them takes \<open>1 < n\<close>, where the division is the division of reals.
\<close>

definition dot :: "real list list \<Rightarrow> real list list \<Rightarrow> real list list" where
  "dot A B = map (\<lambda>r. map (\<lambda>c. sum_list (map2 (*) r c)) (transpose B)) A"

definition X_cov :: "real list list \<Rightarrow> real list list" where
  "X_cov X_sm = map (map (\<lambda>x. x / (real (length X_sm) - 1))) (dot (transpose X_sm) X_sm)"

definition scaled_singular_values :: "real list \<Rightarrow> nat \<Rightarrow> real list" where
  "scaled_singular_values s n = map (\<lambda>x. x\<^sup>2 / (real n - 1)) s"

text \<open>
  The eigenvalues of the wine scenario: the values the notebook prints for \<^verbatim>\<open>eig_vals\<close>,
  in its order, rounded to three decimals.
\<close>

definition wine_eig_vals :: "real list" where
  "wine_eig_vals =
     [4732/1000, 2511/1000, 1454/1000, 924/1000, 858/1000, 645/1000, 554/1000,
      104/1000, 350/1000, 170/1000, 291/1000, 227/1000, 252/1000]"

text \<open>
  A centered matrix with four rows and two orthogonal columns, for the comparison of the
  two paths on a concrete input.
\<close>

definition X_demo :: "real list list" where
  "X_demo = [[1, 2], [-1, 2], [1, -2], [-1, -2]]"

subsection \<open>Auxiliary: running sums of reals\<close>


subsection \<open>Binary64 arithmetic and \<open>percvar\<close> in it\<close>

text \<open>
  A finite double is given by its real value. Signs of zeros are not kept: \<^verbatim>\<open>percvar\<close>
  takes absolute values first, so no negative number and no negative zero arises in it.
  \<open>f64_round\<close> rounds a real to the nearest double, ties to even. The doubles around \<open>x\<close> are
  the integer multiples of \<open>2\<close> to the power \<open>e - 52\<close>, for the exponent \<open>e\<close> of the binade of
  \<open>x\<close>; \<open>binade\<close> finds it between \<open>-1022\<close> (also taken for subnormal numbers) and \<open>1023\<close>.
  A real of magnitude at least \<open>2 ^ 1024 - 2 ^ 970\<close> rounds to an infinity.
\<close>

definition f64_threshold :: real where
  "f64_threshold = 2 ^ 1024 - 2 ^ 970"

fun binade :: "nat \<Rightarrow> real \<Rightarrow> int" where
  "binade 0 a = - 1022"
| "binade (Suc k) a =
     (if 2 powi (int (Suc k) - 1022) \<le> a then int (Suc k) - 1022 else binade k a)"

definition round_half_even :: "real \<Rightarrow> int" where
  "round_half_even y =
     (let f = \<lfloor>y\<rfloor>; r = y - of_int f
      in if r < 1/2 then f
         else if 1/2 < r then f + 1
         else if even f then f else f + 1)"

definition f64_round :: "real \<Rightarrow> npfloat" where
  "f64_round x =
     (if f64_threshold \<le> \<bar>x\<bar> then (if 0 < x then PInf else NInf)
      else (let q = 2 powi (binade 2045 \<bar>x\<bar> - 52)
            in Fin (of_int (round_half_even (x / q)) * q)))"









subsection \<open>Eigenvalues and singular values\<close>





section \<open>The selector \<open>perck\<close>\<close>

text \<open>The loop equation is unfolded by hand, one index at a time.\<close>

declare perck_loop.simps [simp del]

text \<open>A scan that meets no entry \<open>\<ge> p\<close> from index \<open>i\<close> on leaves \<open>count\<close> as it was.\<close>

lemma perck_loop_unmatched:
  "(\<And>j. i \<le> j \<Longrightarrow> j < length s \<Longrightarrow> \<not> np_ge (s ! j) p) \<Longrightarrow> perck_loop s p i cnt = cnt"
proof (induction s p i cnt rule: perck_loop.induct)
  case (1 s p i cnt)
  show ?case
  proof (cases "i < length s")
    case True
    have miss: "\<not> np_ge (s ! i) p" using "1.prems" True by simp
    have "perck_loop s p (Suc i) cnt = cnt"
      using "1.IH" [OF True miss] "1.prems" by simp
    then show ?thesis using True miss by (simp add: perck_loop.simps [of s p i])
  next
    case False
    then show ?thesis by (simp add: perck_loop.simps [of s p i])
  qed
qed

text \<open>A scan started at or before the first matching index \<open>k\<close> returns \<open>k\<close>.\<close>

lemma perck_loop_first:
  "i \<le> k \<Longrightarrow> k < length s \<Longrightarrow> np_ge (s ! k) p \<Longrightarrow>
   (\<And>j. i \<le> j \<Longrightarrow> j < k \<Longrightarrow> \<not> np_ge (s ! j) p) \<Longrightarrow> perck_loop s p i cnt = k"
proof (induction s p i cnt rule: perck_loop.induct)
  case (1 s p i cnt)
  have inside: "i < length s" using "1.prems" by simp
  show ?case
  proof (cases "np_ge (s ! i) p")
    case True
    have "\<not> i < k" using "1.prems"(4) [of i] True by auto
    then have "i = k" using "1.prems"(1) by simp
    moreover have "perck_loop s p i cnt = i"
      using True inside by (simp add: perck_loop.simps [of s p i])
    ultimately show ?thesis by simp
  next
    case False
    then have "i \<noteq> k" using "1.prems" by auto
    then have "Suc i \<le> k" using "1.prems" by simp
    then have "perck_loop s p (Suc i) cnt = k"
      using "1.IH" [OF inside False] "1.prems" by simp
    then show ?thesis using False inside by (simp add: perck_loop.simps [of s p i])
  qed
qed

lemma perck_unmatched: "(\<And>x. x \<in> set pv \<Longrightarrow> \<not> np_ge x p) \<Longrightarrow> perck pv p = 0"
  unfolding perck_def by (rule perck_loop_unmatched) simp

lemma perck_least:
  "k < length pv \<Longrightarrow> np_ge (pv ! k) p \<Longrightarrow> (\<And>j. j < k \<Longrightarrow> \<not> np_ge (pv ! j) p) \<Longrightarrow> perck pv p = k"
  unfolding perck_def by (rule perck_loop_first) simp_all

text \<open>Whenever some entry meets the threshold, there is a first one.\<close>

lemma first_match_exists:
  assumes "\<exists>i<length pv. np_ge (pv ! i) p"
  shows "\<exists>k<length pv. np_ge (pv ! k) p \<and> (\<forall>j<k. \<not> np_ge (pv ! j) p)"
proof -
  define P where "P i \<longleftrightarrow> i < length pv \<and> np_ge (pv ! i) p" for i
  have "\<exists>i. P i" using assms by (auto simp: P_def)
  then have a: "P (LEAST i. P i)" by (metis LeastI)
  have b: "\<not> P j" if "j < (LEAST i. P i)" for j using that by (rule not_less_Least)
  have "\<not> np_ge (pv ! j) p" if j: "j < (LEAST i. P i)" for j
  proof -
    have "\<not> P j" using j by (rule b)
    moreover have "j < length pv" using j a by (simp add: P_def)
    ultimately show ?thesis by (simp add: P_def)
  qed
  then show ?thesis using a unfolding P_def by blast
qed

text \<open>
  Claim C1. If some entry of \<open>pv\<close> is \<open>\<ge> p\<close>, then \<open>perck pv p\<close> is the smallest index
  \<open>i\<close> with \<open>pv[i] \<ge> p\<close>: it is an index of \<open>pv\<close>, the entry there meets the threshold
  and no earlier entry does. The value is the zero-based index itself, not the index plus
  one: a threshold met by the first component gives \<open>0\<close>.
\<close>

theorem perck_first_index:
  assumes "\<exists>i<length pv. np_ge (pv ! i) p"
  shows "perck pv p < length pv \<and> np_ge (pv ! perck pv p) p
         \<and> (\<forall>j<perck pv p. \<not> np_ge (pv ! j) p)
         \<and> (np_ge (pv ! 0) p \<longrightarrow> perck pv p = 0)"
proof -
  obtain k where k: "k < length pv" "np_ge (pv ! k) p" "\<And>j. j < k \<Longrightarrow> \<not> np_ge (pv ! j) p"
    using first_match_exists [OF assms] by blast
  have eq: "perck pv p = k" using k by (rule perck_least)
  have "np_ge (pv ! 0) p \<longrightarrow> k = 0" using k(3) by (cases k) auto
  then show ?thesis using k eq by simp
qed

theorem perck_first_index_witness:
  "(\<exists>i<length [Fin (3/10), Fin 1]. np_ge ([Fin (3/10), Fin 1] ! i) (1/2))
   \<and> perck [Fin (3/10), Fin 1] (1/2) = 1
   \<and> np_ge ([Fin (3/10), Fin 1] ! 1) (1/2)
   \<and> \<not> np_ge ([Fin (3/10), Fin 1] ! 0) (1/2)
   \<and> perck [Fin (1/2), Fin 1] (1/2) = 0"
proof -
  have h: "\<exists>i<length [Fin (3/10), Fin 1]. np_ge ([Fin (3/10), Fin 1] ! i) (1/2)"
    by (rule exI [of _ 1]) simp
  have h': "\<exists>i<length [Fin (1/2), Fin 1]. np_ge ([Fin (1/2), Fin 1] ! i) (1/2)"
    by (rule exI [of _ 0]) simp
  have "perck [Fin (3/10), Fin 1] (1/2) < 2 \<and> perck [Fin (3/10), Fin 1] (1/2) \<noteq> 0"
    using perck_first_index [OF h] by (auto intro: ccontr)
  then have "perck [Fin (3/10), Fin 1] (1/2) = 1" by arith
  moreover have "perck [Fin (1/2), Fin 1] (1/2) = 0"
    using perck_first_index [OF h'] by simp
  ultimately show ?thesis using h by simp
qed

text \<open>
  Claim C3 (as amended). If no entry of \<open>pv\<close> is \<open>\<ge> p\<close>, \<open>perck pv p\<close> raises nothing and
  returns \<open>0\<close>, the initial value of \<open>count\<close>: the same value as a selection that succeeds
  at the first component.
\<close>

theorem perck_unsatisfiable_returns_0:
  "(\<forall>x\<in>set pv. \<not> np_ge x p) \<Longrightarrow> perck pv p = 0"
  by (rule perck_unmatched) simp

theorem perck_unsatisfiable_returns_0_witness:
  "\<not> np_ge (Fin (1/2)) 2 \<and> \<not> np_ge (Fin (9/10)) 2 \<and> perck [Fin (1/2), Fin (9/10)] 2 = 0"
proof -
  have h: "\<forall>x\<in>set [Fin (1/2), Fin (9/10)]. \<not> np_ge x 2" by simp
  show ?thesis using perck_unsatisfiable_returns_0 [OF h] by simp
qed

text \<open>
  The claim as stated asks for an outcome that no successful selection gives. The threshold
  \<open>2\<close> is not met by \<open>[0.5]\<close>, the threshold \<open>0.5\<close> is met by the first entry of \<open>[1]\<close>,
  and \<open>perck\<close> returns \<open>0\<close> for both.
\<close>

theorem perck_unsatisfiable_counterexample:
  "\<not> np_ge (Fin (1/2)) 2 \<and> np_ge (Fin 1) (1/2)
   \<and> perck [Fin (1/2)] 2 = 0 \<and> perck [Fin 1] (1/2) = 0"
  by (simp add: perck_def perck_loop.simps)

text \<open>
  Claim C4 as stated, for all thresholds, fails: on \<open>[0.3, 1]\<close> the threshold \<open>0.5\<close>
  selects index \<open>1\<close>, and the larger threshold \<open>2\<close>, which no entry meets, gives \<open>0\<close>.
\<close>

theorem perck_mono_counterexample:
  "(1/2 :: real) \<le> 2 \<and> perck [Fin (3/10), Fin 1] (1/2) = 1 \<and> perck [Fin (3/10), Fin 1] 2 = 0
   \<and> \<not> perck [Fin (3/10), Fin 1] (1/2) \<le> perck [Fin (3/10), Fin 1] 2"
  by (simp add: perck_def perck_loop.simps)

lemma np_ge_mono: "np_ge x p2 \<Longrightarrow> p1 \<le> p2 \<Longrightarrow> np_ge x p1"
  by (cases x) auto

text \<open>
  Claim C4 (as amended). For a fixed vector \<open>pv\<close> and thresholds \<open>p1 \<le> p2\<close> such that some
  entry of \<open>pv\<close> is \<open>\<ge> p2\<close>, \<open>perck pv p1 \<le> perck pv p2\<close>.
\<close>

theorem perck_mono_achievable:
  assumes "p1 \<le> p2" and "\<exists>i<length pv. np_ge (pv ! i) p2"
  shows "perck pv p1 \<le> perck pv p2"
proof -
  obtain k where k: "k < length pv" "np_ge (pv ! k) p2" "\<And>j. j < k \<Longrightarrow> \<not> np_ge (pv ! j) p2"
    using first_match_exists [OF assms(2)] by blast
  have k2: "perck pv p2 = k" using k by (rule perck_least)
  have "np_ge (pv ! k) p1" using k(2) assms(1) by (rule np_ge_mono)
  then have "\<exists>i<length pv. np_ge (pv ! i) p1" using k(1) by blast
  then obtain m where m: "m < length pv" "np_ge (pv ! m) p1" "\<And>j. j < m \<Longrightarrow> \<not> np_ge (pv ! j) p1"
    using first_match_exists [of pv p1] by blast
  have m1: "perck pv p1 = m" using m by (rule perck_least)
  have "\<not> k < m" using m(3) \<open>np_ge (pv ! k) p1\<close> by blast
  then show ?thesis using k2 m1 by simp
qed

theorem perck_mono_achievable_witness:
  "(1/2 :: real) \<le> 9/10 \<and> (\<exists>i<length [Fin (3/10), Fin (6/10), Fin 1]. np_ge ([Fin (3/10), Fin (6/10), Fin 1] ! i) (9/10))
   \<and> perck [Fin (3/10), Fin (6/10), Fin 1] (1/2) \<le> perck [Fin (3/10), Fin (6/10), Fin 1] (9/10)"
proof -
  have h1: "(1/2 :: real) \<le> 9/10" by simp
  have h2: "\<exists>i<length [Fin (3/10), Fin (6/10), Fin 1]. np_ge ([Fin (3/10), Fin (6/10), Fin 1] ! i) (9/10)"
    by (rule exI [of _ 2]) simp
  show ?thesis using h1 h2 perck_mono_achievable [OF h1 h2] by blast
qed

text \<open>
  Claim C10. On the empty vector \<open>perck\<close> returns \<open>0\<close> for every threshold and raises
  nothing; \<open>0\<close> is also what it returns when the first component meets the threshold.
\<close>

theorem perck_empty_returns_0:
  "perck [] p = 0 \<and> (np_ge x p \<longrightarrow> perck (x # xs) p = 0)"
  by (simp add: perck_def perck_loop.simps [of _ _ 0])

theorem perck_empty_returns_0_witness:
  "perck [] (1/2) = 0 \<and> np_ge (Fin 1) (1/2) \<and> perck [Fin 1, Fin 1] (1/2) = 0"
  using perck_empty_returns_0 [of "1/2" "Fin 1" "[Fin 1]"] by simp

section \<open>Evaluating \<open>percvar\<close> in binary64\<close>






lemma f64_round_overflow: "f64_round (2 ^ 1024) = PInf"
  by (simp add: f64_round_def f64_threshold_def)









section \<open>The profile transform \<open>percvar\<close>\<close>

subsection \<open>Running sums of finite values\<close>







subsection \<open>Sums, sorting and scaling\<close>










subsection \<open>Scaling the input\<close>






subsection \<open>Inputs whose absolute values sum to zero\<close>

lemma cumsum_from_NaN: "cumsum_from a (replicate n NaN) = replicate n NaN"
proof (induction n arbitrary: a)
  case 0
  then show ?case by simp
next
  case (Suc n)
  have "np_add a NaN = NaN" by (cases a) simp_all
  then show ?case using Suc by simp
qed

lemma cumsum_NaN: "cumsum (replicate n NaN) = replicate n NaN"
  by (cases n) (simp_all add: cumsum_def cumsum_from_NaN)

text \<open>
  Claim C6 (as amended). For every vector \<open>v\<close> whose entries are all zero, \<open>percvar v\<close>
  raises nothing and returns two vectors of the length of \<open>v\<close> whose every entry is
  \<open>nan\<close>, the value of \<open>0/0\<close>. For the empty vector these are two empty vectors.
\<close>

theorem percvar_all_zero:
  assumes "\<forall>x\<in>set v. x = 0"
  shows "percvar v = (replicate (length v) NaN, replicate (length v) NaN)"
proof -
  have "map abs v = replicate (length v) 0"
    using assms by (simp add: map_replicate_const [symmetric] cong: map_cong)
  then have s: "rev (sort (map abs v)) = replicate (length v) 0"
    by (simp add: sort_replicate)
  have "map (\<lambda>x. np_div x (sum_list (replicate (length v) 0))) (replicate (length v) (0::real))
        = replicate (length v) NaN"
    by (simp add: np_div_def sum_list_replicate)
  then show ?thesis
    unfolding percvar_def Let_def s by (simp only: cumsum_NaN)
qed

theorem percvar_all_zero_witness:
  "percvar [0, 0, 0] = ([NaN, NaN, NaN], [NaN, NaN, NaN])"
proof -
  have h: "\<forall>x\<in>set [0, 0, 0 :: real]. x = 0" by simp
  show ?thesis using percvar_all_zero [OF h] by (simp add: numeral_3_eq_3)
qed

text \<open>
  The claim as stated includes the empty vector, whose absolute values sum to \<open>0\<close> as well:
  there \<open>percvar\<close> returns two empty vectors, with no error and no \<open>nan\<close> in them.
\<close>

theorem percvar_zero_counterexample:
  "sum_list (map abs ([] :: real list)) = 0 \<and> percvar [] = ([], [])
   \<and> NaN \<notin> set (fst (percvar [])) \<and> NaN \<notin> set (snd (percvar []))"
  by (simp add: percvar_def cumsum_def)

subsection \<open>The covariance path and the SVD path\<close>































text \<open>
  Claim C8. There is a centered matrix with \<open>n > 1\<close> rows on which the vectors that
  \<open>percvar\<close> computes from the raw singular values differ from those of the covariance
  path. The matrix is \<open>X_demo\<close>: its columns sum to zero, \<open>X\<^sup>T X\<close> is diagonal with entries
  \<open>4\<close> and \<open>16\<close>, so the singular values are \<open>4\<close> and \<open>2\<close>; the covariance matrix is diagonal
  with entries \<open>4/3\<close> and \<open>16/3\<close>, which are its eigenvalues, the unit vectors being
  eigenvectors. The covariance path gives \<open>[0.8, 0.2]\<close>, the raw singular values give
  \<open>[2/3, 1/3]\<close>.
\<close>

theorem raw_singular_values_differ:
  "1 < length X_demo
   \<and> map sum_list (transpose X_demo) = [0, 0]
   \<and> dot (transpose X_demo) X_demo = [[4, 0], [0, 16]]
   \<and> X_cov X_demo = [[4/3, 0], [0, 16/3]]
   \<and> dot (X_cov X_demo) [[1], [0]] = [[4/3], [0]]
   \<and> dot (X_cov X_demo) [[0], [1]] = [[0], [16/3]]
   \<and> scaled_singular_values [4, 2] (length X_demo) = [16/3, 4/3]
   \<and> percvar [4/3, 16/3] = ([Fin (4/5), Fin (1/5)], [Fin (4/5), Fin 1])
   \<and> percvar [4, 2] = ([Fin (2/3), Fin (1/3)], [Fin (2/3), Fin 1])
   \<and> fst (percvar [4, 2]) \<noteq> fst (percvar [4/3, 16/3])
   \<and> snd (percvar [4, 2]) \<noteq> snd (percvar [4/3, 16/3])"
  by (simp add: X_demo_def X_cov_def dot_def transpose.simps scaled_singular_values_def
      percvar_def cumsum_def np_div_def)

subsection \<open>The wine scenario\<close>

text \<open>
  Claim C9 (as amended). On the cumulative vector that \<open>percvar\<close> returns for the wine
  eigenvalues, \<open>perck\<close> with threshold \<open>0.90\<close> returns index \<open>7\<close>, the 8th position counting
  from 1, where the cumulative value first reaches \<open>0.90\<close> (the 7th position is still
  below); with threshold \<open>0.40\<close> it returns index \<open>1\<close>, the 2nd position (the 1st position
  is still below).
\<close>

theorem wine_perck:
  "perck (snd (percvar wine_eig_vals)) (9/10) = 7
   \<and> np_ge (snd (percvar wine_eig_vals) ! 7) (9/10)
   \<and> \<not> np_ge (snd (percvar wine_eig_vals) ! 6) (9/10)
   \<and> perck (snd (percvar wine_eig_vals)) (4/10) = 1
   \<and> np_ge (snd (percvar wine_eig_vals) ! 1) (4/10)
   \<and> \<not> np_ge (snd (percvar wine_eig_vals) ! 0) (4/10)"
  by (simp add: perck_def perck_loop.simps percvar_def wine_eig_vals_def cumsum_def np_div_def)

text \<open>
  The claim as stated names the 7th and the 1st position counting from 1, that is the
  indices \<open>6\<close> and \<open>0\<close>: \<open>perck\<close> returns neither, and the entries there are below the
  thresholds.
\<close>

theorem wine_perck_counterexample:
  "perck (snd (percvar wine_eig_vals)) (9/10) \<noteq> 6
   \<and> \<not> np_ge (snd (percvar wine_eig_vals) ! 6) (9/10)
   \<and> perck (snd (percvar wine_eig_vals)) (4/10) \<noteq> 0
   \<and> \<not> np_ge (snd (percvar wine_eig_vals) ! 0) (4/10)"
  by (simp add: perck_def perck_loop.simps percvar_def wine_eig_vals_def cumsum_def np_div_def)

end
